theory Spec2Isabelle
  imports Complex_Main "HOL-Library.Log_Nat"
begin

section \<open>Numbers\<close>

text \<open>
  A JavaScript Number that is finite is a rational. Every arithmetic operation of the
  source is followed by the rounding of its exact result to a Number; that rounding is
  the first parameter \<open>rnd\<close> of every function below that computes, and the engine's
  rounding is \<open>fl64\<close> (IEEE 754 binary64, round to nearest, ties to even). What is
  proved for every \<open>rnd\<close> holds of the engine; every evaluation below is made with
  \<open>fl64\<close>. Infinities and NaN are outside the model; no operation of the source
  divides by anything but a non-zero literal.
\<close>

type_synonym num = rat

text \<open>
  Rounding to binary64. For \<open>x \<noteq> 0\<close> the exponent \<open>e\<close> is that of the unit in
  the last place of \<open>\<bar>x\<bar>\<close>: 53 significant bits for a normal number, and never
  below \<open>-1074\<close>, the spacing of the subnormal numbers. \<open>\<bar>x\<bar> / 2\<^sup>e\<close> is rounded to the
  nearest integer, a tie to the even one. Results beyond the largest finite Number
  (which the engine makes \<open>Infinity\<close>) are not modelled.
\<close>

definition roundHalfEven :: "rat \<Rightarrow> int" where
  "roundHalfEven m =
     (let f = \<lfloor>m\<rfloor>; r = m - of_int f
      in if r < 1/2 then f else if 1/2 < r then f + 1 else if even f then f else f + 1)"

definition ilog2 :: "rat \<Rightarrow> int" where
  "ilog2 a = (if 1 \<le> a then bitlen \<lfloor>a\<rfloor> - 1 else - bitlen (\<lceil>1 / a\<rceil> - 1))"

definition pow2 :: "int \<Rightarrow> rat" where
  "pow2 e = (if 0 \<le> e then 2 ^ nat e else 1 / 2 ^ nat (- e))"

definition fl64 :: "num \<Rightarrow> num" where
  "fl64 x =
     (if x = 0 then 0
      else let a = \<bar>x\<bar>; e = max (ilog2 a - 52) (- 1074); n = roundHalfEven (a / pow2 e)
           in sgn x * of_int n * pow2 e)"

text \<open>\<open>Math.round\<close>: the nearest integer, a tie towards \<open>+\<infinity>\<close>.\<close>

definition Math_round :: "num \<Rightarrow> int" where
  "Math_round x = \<lfloor>x + 1/2\<rfloor>"

section \<open>Number to hexadecimal text and back\<close>

text \<open>
  \<open>Number.prototype.toString(16)\<close> on an integer: the digits, lower case, most
  significant first, after a minus sign for a negative integer.
\<close>

definition hexDigit :: "nat \<Rightarrow> char" where
  "hexDigit d = ''0123456789abcdef'' ! d"

function digits16 :: "nat \<Rightarrow> string" where
  "digits16 n = (if n < 16 then [hexDigit n] else digits16 (n div 16) @ [hexDigit (n mod 16)])"
  by pat_completeness auto
termination
  by (relation "measure id") auto

declare digits16.simps [simp del]

definition toString16 :: "int \<Rightarrow> string" where
  "toString16 i = (if i < 0 then CHR ''-'' # digits16 (nat (- i)) else digits16 (nat i))"

text \<open>\<open>src/js/config/Config.js\<close> (second module of the file): \<open>RESOLUTION\<close>, \<open>toHex\<close>.\<close>

definition RESOLUTION :: "(num \<Rightarrow> num) \<Rightarrow> num" where
  "RESOLUTION rnd = rnd (255 / 100)"

definition toHex :: "(num \<Rightarrow> num) \<Rightarrow> num \<Rightarrow> string" where
  "toHex rnd v =
     (let hex = toString16 (Math_round (rnd (v * RESOLUTION rnd)))
      in if length hex = 1 then ''0'' @ hex else hex)"

text \<open>
  \<open>parseInt(s, 16)\<close>: an optional sign, an optional \<open>0x\<close> or \<open>0X\<close>, then the
  longest run of hexadecimal digits; \<open>NaN\<close> (here \<open>None\<close>) when that run is empty.
  Leading white space, which \<open>parseInt\<close> skips, does not occur: the source always
  passes a string that starts with \<open>0x\<close>.
\<close>

definition hexVal :: "char \<Rightarrow> nat option" where
  "hexVal c = map_of (zip ''0123456789abcdefABCDEF''
                 [0, 1, 2, 3, 4, 5, 6, 7, 8, 9, 10, 11, 12, 13, 14, 15, 10, 11, 12, 13, 14, 15]) c"

definition parseInt16 :: "string \<Rightarrow> int option" where
  "parseInt16 s =
     (let (sign, s1) = (case s of
                          c # r \<Rightarrow> if c = CHR ''-'' then (- 1 :: int, r)
                                   else if c = CHR ''+'' then (1, r) else (1, s)
                        | [] \<Rightarrow> (1, s));
          s2 = (case s1 of
                  c # x # r \<Rightarrow> if c = CHR ''0'' \<and> (x = CHR ''x'' \<or> x = CHR ''X'') then r else s1
                | _ \<Rightarrow> s1);
          ds = takeWhile (\<lambda>c. hexVal c \<noteq> None) s2
      in if ds = [] then None
         else Some (sign * int (foldl (\<lambda>acc c. 16 * acc + (case hexVal c of Some d \<Rightarrow> d | None \<Rightarrow> 0)) 0 ds)))"

section \<open>Controls (AudioParam)\<close>

text \<open>
  An AudioParam belongs to the browser. What the source decides is which of its
  methods are called, with which arguments and in which order, and what it reads from
  \<open>param.value\<close>. A control is therefore its current value and the calls made on it so
  far, oldest first.
\<close>

datatype param_call =
    CancelScheduledValues num
  | SetValueAtTime num num
  | LinearRampToValueAtTime num num

record audio_param =
  pvalue :: num
  calls :: "param_call list"

definition cancelScheduledValues :: "num \<Rightarrow> audio_param \<Rightarrow> audio_param" where
  "cancelScheduledValues t p = p\<lparr>calls := calls p @ [CancelScheduledValues t]\<rparr>"

definition setValueAtTime :: "num \<Rightarrow> num \<Rightarrow> audio_param \<Rightarrow> audio_param" where
  "setValueAtTime v t p = p\<lparr>calls := calls p @ [SetValueAtTime v t]\<rparr>"

definition linearRampToValueAtTime :: "num \<Rightarrow> num \<Rightarrow> audio_param \<Rightarrow> audio_param" where
  "linearRampToValueAtTime v t p = p\<lparr>calls := calls p @ [LinearRampToValueAtTime v t]\<rparr>"

text \<open>The values a control was asked to take, by a set-value or by a ramp, oldest first.\<close>

definition targets :: "audio_param \<Rightarrow> num list" where
  "targets p = concat (map (\<lambda>c. case c of
                                   CancelScheduledValues t \<Rightarrow> []
                                 | SetValueAtTime v t \<Rightarrow> [v]
                                 | LinearRampToValueAtTime v t \<Rightarrow> [v]) (calls p))"

section \<open>scheduleParameterChange\<close>

text \<open>
  The optional argument \<open>data\<close> is an object whose \<open>gliding\<close> property is read and
  written; it is modelled by that property: \<open>None\<close> when no object is passed,
  \<open>Some g\<close> when the object's flag is \<open>g\<close> (an absent property is falsy, hence
  \<open>False\<close>). The function returns the control and the flag as the call leaves them.
\<close>

definition scheduleParameterChange ::
  "(num \<Rightarrow> num) \<Rightarrow> audio_param \<Rightarrow> num \<Rightarrow> num \<Rightarrow> num \<Rightarrow> bool \<Rightarrow> bool option
     \<Rightarrow> audio_param \<times> bool option" where
  "scheduleParameterChange rnd param v startTimeInSeconds durationInSeconds doGlide data =
     (let p1 = (if \<not> doGlide \<or> data = Some False
                then let p0 = cancelScheduledValues startTimeInSeconds param
                     in setValueAtTime (if doGlide then pvalue p0 else v) startTimeInSeconds p0
                else param)
      in if doGlide
         then (linearRampToValueAtTime v (rnd (startTimeInSeconds + durationInSeconds)) p1,
               map_option (\<lambda>_. True) data)
         else (p1, data))"

section \<open>Events, voices, modules\<close>

text \<open>
  \<open>audioEvent.mp.module\<close> is compared with the constants imported from
  \<open>@/definitions/automatable-parameters\<close>; \<open>OTHER s\<close> is any value that is none of
  them. \<open>mp_module\<close>, \<open>mp_value\<close>, \<open>mp_glide\<close> are \<open>audioEvent.mp.module\<close>,
  \<open>.mp.value\<close>, \<open>.mp.glide\<close>; \<open>seq_mpLength\<close> is \<open>audioEvent.seq.mpLength\<close>.
\<close>

datatype module_tag =
    VOLUME | PAN_LEFT | PAN_RIGHT | PITCH_UP | PITCH_DOWN
  | FILTER_ENABLED | FILTER_LFO_ENABLED | FILTER_FREQ | FILTER_Q
  | FILTER_LFO_SPEED | FILTER_LFO_DEPTH
  | DELAY_ENABLED | DELAY_TIME | DELAY_FEEDBACK | DELAY_CUTOFF | DELAY_OFFSET
  | EXTERNAL_EVENT | OTHER string

record audio_event =
  mp_module :: module_tag
  mp_value :: num
  mp_glide :: bool
  seq_mpLength :: num

text \<open>
  \<open>voice.generator\<close> is tested with \<open>instanceof\<close>: an \<open>OscillatorNode\<close> with its
  \<open>frequency\<close> control, an \<open>AudioBufferSourceNode\<close> with its \<open>playbackRate\<close> control,
  or anything else. \<open>gain\<close> is the control \<open>voice.gain.gain\<close>.
\<close>

datatype generator =
    OscillatorNode audio_param
  | AudioBufferSourceNode audio_param
  | OtherNode

record voice =
  generator :: generator
  frequency :: num
  gain :: audio_param
  gliding :: bool

text \<open>
  \<open>modules.filter\<close> with \<open>.filterEnabled\<close>, \<open>.filter.frequency\<close>, \<open>.filter.Q\<close>,
  \<open>.lfo.frequency\<close>, \<open>.lfoAmp.gain\<close>; \<open>modules.delay\<close> with \<open>.delayEnabled\<close> and the
  node \<open>.delay\<close>, whose properties \<open>delay\<close>, \<open>feedback\<close>, \<open>cutoff\<close>, \<open>offset\<close> are
  written directly; \<open>modules.panner.pan\<close>.
\<close>

record filter_module =
  filterEnabled :: bool
  filter_frequency :: audio_param
  filter_Q :: audio_param
  lfo_frequency :: audio_param
  lfoAmp_gain :: audio_param

record delay_node =
  delay :: num
  feedback :: num
  cutoff :: num
  offset :: num

record delay_module =
  delayEnabled :: bool
  delayNode :: delay_node

record modules =
  filterModule :: filter_module
  delayModule :: delay_module
  panner_pan :: audio_param

text \<open>\<open>instrument.filter.lfoType\<close>.\<close>

record instrument =
  filter_lfoType :: nat

text \<open>
  The constants of \<open>Config\<close> that the source reads are not in the \<open>Config\<close> module at
  hand; they are parameters.
\<close>

record config =
  MAX_FILTER_FREQ :: num
  MAX_FILTER_Q :: num
  MAX_FILTER_LFO_SPEED :: num
  MAX_FILTER_LFO_DEPTH :: num
  MAX_DELAY_CUTOFF :: num
  MIN_DELAY_OFFSET :: num

text \<open>
  A timer made by \<open>createTimer\<close>: the time, and the closure, which holds the callback
  and the event. A callback is known by its name.
\<close>

type_synonym callback = nat

datatype timer = Timer num callback audio_event

section \<open>Collaborators\<close>

text \<open>
  Modelled from the spec: \<open>processVoices\<close> of \<open>./audio-util\<close>, which "applies fn to
  every live voice". The callbacks of this module touch nothing but the voice they are
  given, so the order of the visits does not show.
\<close>

definition processVoices :: "voice list \<Rightarrow> (voice \<Rightarrow> voice) \<Rightarrow> voice list" where
  "processVoices instrumentEvents fn = map fn instrumentEvents"

text \<open>
  Modelled from the spec: \<open>createTimer\<close> of \<open>./webaudio-helper\<close>, which "schedules fn
  to run at time on the audio clock", once.
\<close>

definition createTimer :: "num \<Rightarrow> callback \<Rightarrow> audio_event \<Rightarrow> timer list \<Rightarrow> timer list" where
  "createTimer t cb ev ts = ts @ [Timer t cb ev]"

section \<open>The appliers\<close>

text \<open>The voice after a scheduling call that was given the voice as \<open>data\<close>.\<close>

definition voiceData :: "voice \<Rightarrow> bool option \<Rightarrow> voice" where
  "voiceData v g = (case g of Some b \<Rightarrow> v\<lparr>gliding := b\<rparr> | None \<Rightarrow> v)"

definition applyVolumeEnvelope ::
  "(num \<Rightarrow> num) \<Rightarrow> audio_event \<Rightarrow> voice list \<Rightarrow> num \<Rightarrow> voice list" where
  "applyVolumeEnvelope rnd audioEvent instrumentEvents startTimeInSeconds =
     (let doGlide = mp_glide audioEvent;
          durationInSeconds = seq_mpLength audioEvent;
          target = rnd (mp_value audioEvent / 100)
      in processVoices instrumentEvents (\<lambda>voice.
           let (p, g) = scheduleParameterChange rnd (gain voice) target startTimeInSeconds
                          durationInSeconds doGlide (Some (gliding voice))
           in voiceData (voice\<lparr>gain := p\<rparr>) g))"

definition applyPitchShift ::
  "(num \<Rightarrow> num) \<Rightarrow> audio_event \<Rightarrow> voice list \<Rightarrow> num \<Rightarrow> voice list" where
  "applyPitchShift rnd audioEvent instrumentEvents startTimeInSeconds =
     (let doGlide = mp_glide audioEvent;
          durationInSeconds = seq_mpLength audioEvent;
          goingUp = (mp_module audioEvent = PITCH_UP)
      in processVoices instrumentEvents (\<lambda>voice.
           case generator voice of
             OscillatorNode generator_frequency \<Rightarrow>
               let tmp = rnd (frequency voice + rnd (frequency voice / 1200));
                   target = rnd (tmp * rnd (mp_value audioEvent / 100));
                   target = (if goingUp then rnd (target + frequency voice)
                             else rnd (frequency voice - rnd (target / 2)));
                   (p, g) = scheduleParameterChange rnd generator_frequency target
                              startTimeInSeconds durationInSeconds doGlide (Some (gliding voice))
               in voiceData (voice\<lparr>generator := OscillatorNode p\<rparr>) g
           | AudioBufferSourceNode generator_playbackRate \<Rightarrow>
               let tmp = rnd (mp_value audioEvent / 100);
                   target = (if goingUp then rnd (pvalue generator_playbackRate + tmp)
                             else rnd (pvalue generator_playbackRate - tmp));
                   (p, g) = scheduleParameterChange rnd generator_playbackRate target
                              startTimeInSeconds durationInSeconds doGlide (Some (gliding voice))
               in voiceData (voice\<lparr>generator := AudioBufferSourceNode p\<rparr>) g
           | OtherNode \<Rightarrow> voice))"

definition applyPanning ::
  "(num \<Rightarrow> num) \<Rightarrow> audio_event \<Rightarrow> modules \<Rightarrow> num \<Rightarrow> modules" where
  "applyPanning rnd audioEvent m startTimeInSeconds =
     (let doGlide = mp_glide audioEvent;
          durationInSeconds = seq_mpLength audioEvent;
          target = rnd (mp_value audioEvent / 100)
      in m\<lparr>panner_pan := fst (scheduleParameterChange rnd (panner_pan m)
             (if mp_module audioEvent = PAN_LEFT then - target else target)
             startTimeInSeconds durationInSeconds doGlide None)\<rparr>)"

definition applyFilter ::
  "(num \<Rightarrow> num) \<Rightarrow> config \<Rightarrow> audio_event \<Rightarrow> modules \<Rightarrow> num \<Rightarrow> modules" where
  "applyFilter rnd Config audioEvent m startTimeInSeconds =
     (let doGlide = mp_glide audioEvent;
          durationInSeconds = seq_mpLength audioEvent;
          module = filterModule m;
          target = rnd (mp_value audioEvent / 100)
      in case mp_module audioEvent of
           FILTER_FREQ \<Rightarrow>
             m\<lparr>filterModule := module\<lparr>filter_frequency :=
                 fst (scheduleParameterChange rnd (filter_frequency module)
                        (rnd (target * MAX_FILTER_FREQ Config))
                        startTimeInSeconds durationInSeconds doGlide None)\<rparr>\<rparr>
         | FILTER_Q \<Rightarrow>
             m\<lparr>filterModule := module\<lparr>filter_Q :=
                 fst (scheduleParameterChange rnd (filter_Q module)
                        (rnd (target * MAX_FILTER_Q Config))
                        startTimeInSeconds durationInSeconds doGlide None)\<rparr>\<rparr>
         | FILTER_LFO_SPEED \<Rightarrow>
             m\<lparr>filterModule := module\<lparr>lfo_frequency :=
                 fst (scheduleParameterChange rnd (lfo_frequency module)
                        (rnd (target * MAX_FILTER_LFO_SPEED Config))
                        startTimeInSeconds durationInSeconds doGlide None)\<rparr>\<rparr>
         | FILTER_LFO_DEPTH \<Rightarrow>
             m\<lparr>filterModule := module\<lparr>lfoAmp_gain :=
                 fst (scheduleParameterChange rnd (lfoAmp_gain module)
                        (rnd (rnd (rnd (target * MAX_FILTER_LFO_DEPTH Config) / 100)
                              * pvalue (filter_frequency module)))
                        startTimeInSeconds durationInSeconds doGlide None)\<rparr>\<rparr>
         | _ \<Rightarrow> m)"

definition applyDelay :: "(num \<Rightarrow> num) \<Rightarrow> config \<Rightarrow> audio_event \<Rightarrow> modules \<Rightarrow> modules" where
  "applyDelay rnd Config audioEvent m =
     (let module = delayNode (delayModule m);
          target = rnd (mp_value audioEvent / 100);
          written = (case mp_module audioEvent of
                       DELAY_TIME \<Rightarrow> module\<lparr>delay := target\<rparr>
                     | DELAY_FEEDBACK \<Rightarrow> module\<lparr>feedback := target\<rparr>
                     | DELAY_CUTOFF \<Rightarrow> module\<lparr>cutoff := rnd (target * MAX_DELAY_CUTOFF Config)\<rparr>
                     | DELAY_OFFSET \<Rightarrow> module\<lparr>offset := rnd (MIN_DELAY_OFFSET Config + target)\<rparr>
                     | _ \<Rightarrow> module)
      in m\<lparr>delayModule := (delayModule m)\<lparr>delayNode := written\<rparr>\<rparr>)"

definition applyExternalEvent ::
  "audio_event \<Rightarrow> num \<Rightarrow> callback option \<Rightarrow> timer list \<Rightarrow> timer list" where
  "applyExternalEvent event startTimeInSeconds eventCallback ts =
     (case eventCallback of
        None \<Rightarrow> ts
      | Some cb \<Rightarrow> createTimer startTimeInSeconds cb event ts)"

text \<open>
  What a timer does when it fires: the closure of \<open>applyExternalEvent\<close> calls the
  callback with \<open>parseInt(`0x${toHex(event.mp.value)}`, 16)\<close>. The result is the
  callback and its argument.
\<close>

definition fire :: "(num \<Rightarrow> num) \<Rightarrow> timer \<Rightarrow> callback \<times> int option" where
  "fire rnd tm = (case tm of Timer t cb event \<Rightarrow>
                    (cb, parseInt16 (''0x'' @ toHex rnd (mp_value event))))"

section \<open>The dispatcher\<close>

text \<open>
  Everything the dispatcher can change: the modules, the instrument, the voices now
  playing, the timers of the audio context, and the calls made to \<open>applyRouting\<close>
  (each with the modules as they were at the call, and the output node, known by its
  name).
\<close>

record state =
  modules :: modules
  instrument :: instrument
  instrumentEvents :: "voice list"
  timers :: "timer list"
  routed :: "(modules \<times> nat) list"

text \<open>
  Modelled from the spec: \<open>applyRouting\<close> of \<open>./module-router\<close>, "invoked, never
  implemented, by this core" with the module state and the output node. The call is
  recorded with the modules as they are when it is made.
\<close>

definition applyRouting :: "modules \<Rightarrow> nat \<Rightarrow> state \<Rightarrow> state" where
  "applyRouting m output st = st\<lparr>routed := routed st @ [(m, output)]\<rparr>"

text \<open>
  \<open>rangeToIndex\<close> of \<open>@/utils/array-util\<close> is not at hand; it is a parameter.
  \<open>optEventCallback\<close> is \<open>None\<close> when no callback is passed.
\<close>

definition filterTypes :: "string list" where
  "filterTypes = [''off'', ''sine'', ''square'', ''sawtooth'', ''triangle'']"

definition applyModuleParamChange ::
  "(num \<Rightarrow> num) \<Rightarrow> config \<Rightarrow> (string list \<Rightarrow> num \<Rightarrow> nat) \<Rightarrow> audio_event \<Rightarrow> num \<Rightarrow> nat
     \<Rightarrow> callback option \<Rightarrow> state \<Rightarrow> state" where
  "applyModuleParamChange rnd Config rangeToIndex audioEvent startTimeInSeconds output
       optEventCallback st =
     (case mp_module audioEvent of
        VOLUME \<Rightarrow>
          st\<lparr>instrumentEvents :=
               applyVolumeEnvelope rnd audioEvent (instrumentEvents st) startTimeInSeconds\<rparr>
      | PAN_LEFT \<Rightarrow>
          st\<lparr>modules := applyPanning rnd audioEvent (modules st) startTimeInSeconds\<rparr>
      | PAN_RIGHT \<Rightarrow>
          st\<lparr>modules := applyPanning rnd audioEvent (modules st) startTimeInSeconds\<rparr>
      | PITCH_UP \<Rightarrow>
          st\<lparr>instrumentEvents :=
               applyPitchShift rnd audioEvent (instrumentEvents st) startTimeInSeconds\<rparr>
      | PITCH_DOWN \<Rightarrow>
          st\<lparr>instrumentEvents :=
               applyPitchShift rnd audioEvent (instrumentEvents st) startTimeInSeconds\<rparr>
      | FILTER_ENABLED \<Rightarrow>
          (let m = (modules st)\<lparr>filterModule :=
                     (filterModule (modules st))\<lparr>filterEnabled := (50 \<le> mp_value audioEvent)\<rparr>\<rparr>
           in applyRouting m output (st\<lparr>modules := m\<rparr>))
      | FILTER_LFO_ENABLED \<Rightarrow>
          applyRouting (modules st) output
            (st\<lparr>instrument := (instrument st)\<lparr>filter_lfoType :=
                   rangeToIndex filterTypes (mp_value audioEvent)\<rparr>\<rparr>)
      | FILTER_FREQ \<Rightarrow>
          st\<lparr>modules := applyFilter rnd Config audioEvent (modules st) startTimeInSeconds\<rparr>
      | FILTER_Q \<Rightarrow>
          st\<lparr>modules := applyFilter rnd Config audioEvent (modules st) startTimeInSeconds\<rparr>
      | FILTER_LFO_SPEED \<Rightarrow>
          st\<lparr>modules := applyFilter rnd Config audioEvent (modules st) startTimeInSeconds\<rparr>
      | FILTER_LFO_DEPTH \<Rightarrow>
          st\<lparr>modules := applyFilter rnd Config audioEvent (modules st) startTimeInSeconds\<rparr>
      | DELAY_ENABLED \<Rightarrow>
          (let m = (modules st)\<lparr>delayModule :=
                     (delayModule (modules st))\<lparr>delayEnabled := (50 \<le> mp_value audioEvent)\<rparr>\<rparr>
           in applyRouting m output (st\<lparr>modules := m\<rparr>))
      | DELAY_TIME \<Rightarrow> st\<lparr>modules := applyDelay rnd Config audioEvent (modules st)\<rparr>
      | DELAY_FEEDBACK \<Rightarrow> st\<lparr>modules := applyDelay rnd Config audioEvent (modules st)\<rparr>
      | DELAY_CUTOFF \<Rightarrow> st\<lparr>modules := applyDelay rnd Config audioEvent (modules st)\<rparr>
      | DELAY_OFFSET \<Rightarrow> st\<lparr>modules := applyDelay rnd Config audioEvent (modules st)\<rparr>
      | EXTERNAL_EVENT \<Rightarrow>
          st\<lparr>timers := applyExternalEvent audioEvent startTimeInSeconds optEventCallback (timers st)\<rparr>
      | OTHER x \<Rightarrow> st)"

section \<open>A sample configuration\<close>

text \<open>Concrete values on which the theorems below are exercised.\<close>

definition control :: "num \<Rightarrow> audio_param" where
  "control v = \<lparr>pvalue = v, calls = []\<rparr>"

definition sampleConfig :: config where
  "sampleConfig = \<lparr>MAX_FILTER_FREQ = 24000, MAX_FILTER_Q = 40, MAX_FILTER_LFO_SPEED = 25,
     MAX_FILTER_LFO_DEPTH = 100, MAX_DELAY_CUTOFF = 22050, MIN_DELAY_OFFSET = - (1/2)\<rparr>"

definition sampleModules :: "num \<Rightarrow> modules" where
  "sampleModules c =
     \<lparr>filterModule = \<lparr>filterEnabled = False, filter_frequency = control c,
        filter_Q = control 5, lfo_frequency = control (1/2), lfoAmp_gain = control 0\<rparr>,
      delayModule = \<lparr>delayEnabled = False,
        delayNode = \<lparr>delay = 0, feedback = 0, cutoff = 0, offset = 0\<rparr>\<rparr>,
      panner_pan = control 0\<rparr>"

definition sampleVoices :: "voice list" where
  "sampleVoices =
     [\<lparr>generator = OscillatorNode (control 440), frequency = 440, gain = control 1,
        gliding = False\<rparr>,
      \<lparr>generator = OtherNode, frequency = 220, gain = control 1, gliding = False\<rparr>,
      \<lparr>generator = AudioBufferSourceNode (control 1), frequency = 330, gain = control 1,
        gliding = False\<rparr>]"

definition sampleState :: state where
  "sampleState = \<lparr>modules = sampleModules 880, instrument = \<lparr>filter_lfoType = 0\<rparr>,
     instrumentEvents = sampleVoices, timers = [], routed = []\<rparr>"

definition sampleEvent :: "module_tag \<Rightarrow> num \<Rightarrow> bool \<Rightarrow> audio_event" where
  "sampleEvent tag v g = \<lparr>mp_module = tag, mp_value = v, mp_glide = g, seq_mpLength = 1/4\<rparr>"

definition sampleRangeToIndex :: "string list \<Rightarrow> num \<Rightarrow> nat" where
  "sampleRangeToIndex xs v = 0"

section \<open>Auxiliary notions for the proofs\<close>

text \<open>One step of reading a hexadecimal digit, as \<open>parseInt16\<close> folds it.\<close>

definition hexStep :: "nat \<Rightarrow> char \<Rightarrow> nat" where
  "hexStep acc c = 16 * acc + (case hexVal c of Some d \<Rightarrow> d | None \<Rightarrow> 0)"

text \<open>The padding of \<open>toHex\<close>.\<close>

definition padded :: "string \<Rightarrow> string" where
  "padded hex = (if length hex = 1 then ''0'' @ hex else hex)"

section \<open>Facts about the scheduler\<close>

lemmas sched_defs = scheduleParameterChange_def cancelScheduledValues_def setValueAtTime_def
  linearRampToValueAtTime_def

lemmas sample_defs = control_def sampleConfig_def sampleModules_def sampleVoices_def
  sampleState_def sampleEvent_def sampleRangeToIndex_def

lemma schedule_no_data:
  "scheduleParameterChange rnd p v t d doGlide None =
     (p\<lparr>calls := calls p @ (if doGlide then [LinearRampToValueAtTime v (rnd (t + d))]
                             else [CancelScheduledValues t, SetValueAtTime v t])\<rparr>, None)"
  by (simp add: sched_defs Let_def)

section \<open>Facts about binary64 rounding\<close>

lemma fl64_0: "fl64 0 = 0"
  by (simp add: fl64_def)

lemma fl64_1: "fl64 1 = 1"
  by code_simp

lemma fl64_2: "fl64 2 = 2"
  by code_simp

lemma fl64_7: "fl64 7 = 7"
  by code_simp

lemma fl64_half: "fl64 (1/2) = 1/2"
  by code_simp

lemma roundHalfEven_cases:
  "roundHalfEven m = \<lfloor>m\<rfloor> \<and> m - of_int \<lfloor>m\<rfloor> \<le> 1/2
   \<or> roundHalfEven m = \<lfloor>m\<rfloor> + 1 \<and> 1/2 \<le> m - of_int \<lfloor>m\<rfloor>"
  by (simp add: roundHalfEven_def Let_def)

lemma roundHalfEven_upper: "of_int (roundHalfEven m) \<le> m + 1/2"
proof -
  have fl: "of_int \<lfloor>m\<rfloor> \<le> m" by (rule of_int_floor_le)
  from roundHalfEven_cases [of m] show ?thesis
  proof
    assume "roundHalfEven m = \<lfloor>m\<rfloor> \<and> m - of_int \<lfloor>m\<rfloor> \<le> 1/2"
    then have "of_int (roundHalfEven m) = (of_int \<lfloor>m\<rfloor> :: rat)" by simp
    with fl show ?thesis by linarith
  next
    assume "roundHalfEven m = \<lfloor>m\<rfloor> + 1 \<and> 1/2 \<le> m - of_int \<lfloor>m\<rfloor>"
    then have "of_int (roundHalfEven m) = (of_int \<lfloor>m\<rfloor> + 1 :: rat)"
      and "1/2 \<le> m - of_int \<lfloor>m\<rfloor>" by simp_all
    then show ?thesis by linarith
  qed
qed

lemma roundHalfEven_nonneg: "0 \<le> m \<Longrightarrow> 0 \<le> roundHalfEven m"
proof -
  assume "0 \<le> m"
  then have "0 \<le> \<lfloor>m\<rfloor>" by simp
  with roundHalfEven_cases [of m] show ?thesis
    by (elim disjE conjE) simp_all
qed

lemma pow2_pos: "0 < pow2 e"
  by (simp add: pow2_def)

lemma pow2_powi: "pow2 e = 2 powi e"
  by (simp add: pow2_def power_int_def inverse_eq_divide power_one_over)

lemma pow2_diff: "pow2 (a - b) = pow2 a / pow2 b"
  by (simp add: pow2_powi power_int_diff)

lemma ilog2_lower:
  assumes "0 < a"
  shows "pow2 (ilog2 a) \<le> a"
proof (cases "1 \<le> a")
  case True
  then have pos: "0 < \<lfloor>a\<rfloor>" by simp
  from bitlen_bounds [OF pos] have i: "2 ^ nat (bitlen \<lfloor>a\<rfloor> - 1) \<le> \<lfloor>a\<rfloor>" by simp
  have "(2::rat) ^ nat (bitlen \<lfloor>a\<rfloor> - 1) = of_int (2 ^ nat (bitlen \<lfloor>a\<rfloor> - 1))"
    by simp
  also have "\<dots> \<le> of_int \<lfloor>a\<rfloor>"
    using i by (simp only: of_int_le_iff)
  also have "\<dots> \<le> a"
    by (rule of_int_floor_le)
  finally have "(2::rat) ^ nat (bitlen \<lfloor>a\<rfloor> - 1) \<le> a" .
  moreover have "1 \<le> bitlen \<lfloor>a\<rfloor>"
    using pos by (simp add: bitlen_alt_def)
  ultimately show ?thesis
    using True by (simp add: ilog2_def pow2_def)
next
  case False
  define n where "n = \<lceil>1 / a\<rceil> - 1"
  from False assms have "1 < 1 / a" by simp
  then have "1 < \<lceil>1 / a\<rceil>" by (simp add: less_ceiling_iff)
  then have pos: "0 < n" by (simp add: n_def)
  then have b1: "1 \<le> bitlen n" by (simp add: bitlen_alt_def)
  from bitlen_bounds [OF pos] have "n < 2 ^ nat (bitlen n)" by simp
  then have "\<lceil>1 / a\<rceil> \<le> 2 ^ nat (bitlen n)" by (simp add: n_def)
  then have "1 / a \<le> of_int (2 ^ nat (bitlen n))"
    by (simp only: ceiling_le_iff)
  then have "1 / a \<le> 2 ^ nat (bitlen n)" by simp
  then have "1 \<le> a * 2 ^ nat (bitlen n)"
    using assms by (simp add: field_simps)
  then have "1 / 2 ^ nat (bitlen n) \<le> a"
    by (simp add: field_simps)
  then show ?thesis
    using False b1 by (simp add: ilog2_def pow2_def n_def)
qed

lemma fl64_nonneg: "0 \<le> x \<Longrightarrow> 0 \<le> fl64 x"
  using pow2_pos [of "max (ilog2 \<bar>x\<bar> - 52) (- 1074)"]
    roundHalfEven_nonneg [of "\<bar>x\<bar> / pow2 (max (ilog2 \<bar>x\<bar> - 52) (- 1074))"]
  by (simp add: fl64_def Let_def)

lemma fl64_upper:
  assumes "0 < x"
  shows "fl64 x \<le> x + x / 2 ^ 53 + 1 / 2 ^ 1075"
proof -
  define e where "e = max (ilog2 x - 52) (- 1074)"
  have fl: "fl64 x = of_int (roundHalfEven (x / pow2 e)) * pow2 e"
    using assms by (simp add: fl64_def Let_def e_def)
  have "of_int (roundHalfEven (x / pow2 e)) * pow2 e \<le> (x / pow2 e + 1/2) * pow2 e"
    using roundHalfEven_upper [of "x / pow2 e"] pow2_pos [of e]
    by (simp only: mult_le_cancel_right) simp
  also have "\<dots> = x + pow2 e / 2"
    using pow2_pos [of e] by (simp add: field_simps)
  finally have step: "fl64 x \<le> x + pow2 e / 2"
    by (simp add: fl)
  have "pow2 e \<le> x / 2 ^ 52 + 1 / 2 ^ 1074"
  proof (cases "ilog2 x - 52 \<le> - 1074")
    case True
    then have "e = - 1074" by (simp add: e_def)
    then have "pow2 e = 1 / 2 ^ 1074" by (simp add: pow2_def)
    with assms show ?thesis by simp
  next
    case False
    then have "e = ilog2 x - 52" by (simp add: e_def)
    then have "pow2 e = pow2 (ilog2 x) / 2 ^ 52"
      by (simp add: pow2_diff) (simp add: pow2_def)
    also have "\<dots> \<le> x / 2 ^ 52"
      using ilog2_lower [OF assms] by (simp add: divide_right_mono)
    finally show ?thesis by simp
  qed
  with step show ?thesis by simp
qed

lemma RESOLUTION_fl64: "RESOLUTION fl64 = 2871044762448691 / 1125899906842624"
  unfolding RESOLUTION_def by code_simp

lemma toHex_range:
  assumes "0 \<le> v" and "v \<le> 100"
  shows "0 \<le> Math_round (fl64 (v * RESOLUTION fl64))"
    and "Math_round (fl64 (v * RESOLUTION fl64)) \<le> 255"
proof -
  define x where "x = v * RESOLUTION fl64"
  have x0: "0 \<le> x" using assms(1) by (simp add: x_def RESOLUTION_fl64)
  have x255: "x < 255" using assms(2) by (simp add: x_def RESOLUTION_fl64)
  from fl64_nonneg [OF x0] show "0 \<le> Math_round (fl64 (v * RESOLUTION fl64))"
    by (simp add: Math_round_def x_def [symmetric])
  have "fl64 x + 1/2 < 256"
  proof (cases "x = 0")
    case True
    then show ?thesis by (simp add: fl64_def)
  next
    case False
    with x0 have "0 < x" by simp
    from fl64_upper [OF this] x255 show ?thesis by simp
  qed
  then have "\<lfloor>fl64 x + 1/2\<rfloor> < 256" by (simp add: floor_less_iff)
  then show "Math_round (fl64 (v * RESOLUTION fl64)) \<le> 255"
    by (simp add: Math_round_def x_def [symmetric])
qed

lemma round_50: "Math_round (fl64 (50 * RESOLUTION fl64)) = 127"
  unfolding RESOLUTION_fl64 by code_simp

lemma round_90: "Math_round (fl64 (90 * RESOLUTION fl64)) = 229"
  unfolding RESOLUTION_fl64 by code_simp

lemma round_100: "Math_round (fl64 (100 * RESOLUTION fl64)) = 255"
  unfolding RESOLUTION_fl64 by code_simp

lemma round_0: "Math_round (fl64 (0 * RESOLUTION fl64)) = 0"
  unfolding RESOLUTION_fl64 by code_simp

section \<open>Hexadecimal text: writing, then reading, gives the number back\<close>

lemma hexVal_hexDigit_all: "\<forall>d<16. hexVal (hexDigit d) = Some d"
  by (simp add: hexVal_def hexDigit_def numeral_eq_Suc All_less_Suc)

lemma hexVal_hexDigit: "d < 16 \<Longrightarrow> hexVal (hexDigit d) = Some d"
  using hexVal_hexDigit_all by blast

lemma digits16_hex: "c \<in> set (digits16 n) \<Longrightarrow> hexVal c \<noteq> None"
proof (induction n arbitrary: c rule: digits16.induct)
  case (1 n)
  show ?case
  proof (cases "n < 16")
    case True
    with "1.prems" show ?thesis
      by (simp add: digits16.simps [of n] hexVal_hexDigit)
  next
    case False
    with "1.prems" have "c \<in> set (digits16 (n div 16)) \<or> c = hexDigit (n mod 16)"
      by (auto simp: digits16.simps [of n])
    then show ?thesis
      using "1.IH" [OF False] by (auto simp: hexVal_hexDigit)
  qed
qed

lemma digits16_value: "foldl hexStep 0 (digits16 n) = n"
proof (induction n rule: digits16.induct)
  case (1 n)
  show ?case
  proof (cases "n < 16")
    case True
    then show ?thesis
      by (simp add: digits16.simps [of n] hexStep_def hexVal_hexDigit)
  next
    case False
    then show ?thesis
      using "1.IH" [OF False]
      by (simp add: digits16.simps [of n] hexStep_def hexVal_hexDigit)
  qed
qed

lemma digits16_nonempty: "digits16 n \<noteq> []"
  by (simp add: digits16.simps [of n])

lemma digits16_length1: "length (digits16 n) = Suc 0 \<longleftrightarrow> n < 16"
proof (cases "n < 16")
  case True
  then show ?thesis by (simp add: digits16.simps [of n])
next
  case False
  then show ?thesis
    using digits16_nonempty [of "n div 16"]
    by (simp add: digits16.simps [of n] Suc_le_eq)
qed

lemma digits16_length2: "16 \<le> n \<Longrightarrow> n < 256 \<Longrightarrow> length (digits16 n) = 2"
proof -
  assume a: "16 \<le> n" "n < 256"
  then have "n div 16 < 16" by simp
  then have "length (digits16 (n div 16)) = 1" by (simp add: digits16_length1)
  with a show ?thesis by (simp add: digits16.simps [of n])
qed

lemma parseInt16_0x:
  assumes "ds \<noteq> []" and "\<forall>c \<in> set ds. hexVal c \<noteq> None"
  shows "parseInt16 (''0x'' @ ds) = Some (int (foldl hexStep 0 ds))"
proof -
  have tw: "takeWhile (\<lambda>c. hexVal c \<noteq> None) ds = ds"
    using assms(2) by (simp add: takeWhile_eq_all_conv del: not_None_eq)
  have hs: "(\<lambda>acc c. 16 * acc + (case hexVal c of None \<Rightarrow> 0 | Some d \<Rightarrow> d)) = hexStep"
    by (simp add: hexStep_def fun_eq_iff)
  show ?thesis
    using assms(1) by (simp add: parseInt16_def Let_def tw hs del: not_None_eq)
qed

lemma hexStep_zero: "foldl hexStep 0 (CHR ''0'' # ds) = foldl hexStep 0 ds"
  by (simp add: hexStep_def hexVal_def)

lemma hexVal_zero: "hexVal CHR ''0'' \<noteq> None"
  by (simp add: hexVal_def)

lemma parseInt16_padded:
  "parseInt16 (''0x'' @ padded (digits16 n)) = Some (int n)"
proof -
  have ne: "padded (digits16 n) \<noteq> []"
    by (simp add: padded_def digits16_nonempty)
  have hx: "\<forall>c \<in> set (padded (digits16 n)). hexVal c \<noteq> None"
    using hexVal_zero digits16_hex [of _ n] by (auto simp: padded_def simp del: not_None_eq)
  have "foldl hexStep 0 (padded (digits16 n)) = n"
    using hexStep_zero [of "digits16 n"] by (simp add: padded_def digits16_value)
  with parseInt16_0x [OF ne hx] show ?thesis by simp
qed

lemma fire_nonneg:
  assumes "0 \<le> Math_round (rnd (mp_value ev * RESOLUTION rnd))"
  shows "fire rnd (Timer t cb ev) = (cb, Some (Math_round (rnd (mp_value ev * RESOLUTION rnd))))"
proof -
  define r where "r = Math_round (rnd (mp_value ev * RESOLUTION rnd))"
  have "toHex rnd (mp_value ev) = padded (digits16 (nat r))"
    using assms by (simp add: toHex_def toString16_def padded_def r_def Let_def)
  then show ?thesis
    using assms parseInt16_padded [of "nat r"] by (simp add: fire_def r_def)
qed

lemma toHex_length:
  assumes "0 \<le> Math_round (rnd (v * RESOLUTION rnd))"
      and "Math_round (rnd (v * RESOLUTION rnd)) \<le> 255"
  shows "length (toHex rnd v) = 2"
proof -
  define n where "n = nat (Math_round (rnd (v * RESOLUTION rnd)))"
  have n: "n < 256" using assms by (simp add: n_def)
  have hex: "toHex rnd v = padded (digits16 n)"
    using assms(1) by (simp add: toHex_def toString16_def padded_def n_def Let_def)
  show ?thesis
  proof (cases "n < 16")
    case True
    then show ?thesis by (simp add: hex padded_def digits16_length1)
  next
    case False
    then have "length (digits16 n) = 2" using n by (simp add: digits16_length2)
    then show ?thesis by (simp add: hex padded_def)
  qed
qed

section \<open>The scheduler's contract\<close>

text \<open>
  C1. Whenever doGlide is false, or a continuation object is passed whose gliding flag is
  false, the call first cancels the scheduled changes from startTime on and then sets
  the value at startTime: to the control's current value when doGlide is true, to
  targetValue otherwise. Otherwise neither call is made. Then, whenever doGlide is
  true, it programs a linear ramp to targetValue ending at startTime + durationSeconds
  and sets the gliding flag of the continuation object, if one was passed, to true;
  when doGlide is false no ramp is programmed and the flag is left as it was. The
  current value of the control is never changed by the call.
\<close>

theorem scheduleParameterChange_contract:
  "scheduleParameterChange rnd param v t d doGlide data =
     (param\<lparr>calls := calls param
        @ (if \<not> doGlide \<or> data = Some False
           then [CancelScheduledValues t, SetValueAtTime (if doGlide then pvalue param else v) t]
           else [])
        @ (if doGlide then [LinearRampToValueAtTime v (rnd (t + d))] else [])\<rparr>,
      if doGlide then map_option (\<lambda>_. True) data else data)"
  by (simp add: sched_defs Let_def)

theorem scheduleParameterChange_contract_witness:
  "scheduleParameterChange fl64 \<lparr>pvalue = 1/4, calls = [LinearRampToValueAtTime 1 3]\<rparr>
      (1/2) 5 2 True (Some False) =
     (\<lparr>pvalue = 1/4, calls = [LinearRampToValueAtTime 1 3, CancelScheduledValues 5,
         SetValueAtTime (1/4) 5, LinearRampToValueAtTime (1/2) 7]\<rparr>, Some True)
   \<and> scheduleParameterChange fl64 \<lparr>pvalue = 1/4, calls = [LinearRampToValueAtTime 1 3]\<rparr>
      (1/2) 5 2 False (Some True) =
     (\<lparr>pvalue = 1/4, calls = [LinearRampToValueAtTime 1 3, CancelScheduledValues 5,
         SetValueAtTime (1/2) 5]\<rparr>, Some True)"
  using scheduleParameterChange_contract
    [of fl64 "\<lparr>pvalue = 1/4, calls = [LinearRampToValueAtTime 1 3]\<rparr>" "1/2" 5 2 True "Some False"]
    scheduleParameterChange_contract
    [of fl64 "\<lparr>pvalue = 1/4, calls = [LinearRampToValueAtTime 1 3]\<rparr>" "1/2" 5 2 False "Some True"]
  by (simp add: fl64_7)

text \<open>
  C2. Two calls in succession on one control, both with doGlide true, sharing a
  continuation object whose gliding flag starts false. The first call adds, in this
  order, the cancellation from its start time, the set-value of the control's current
  value at its start time, and its ramp, and leaves the flag true. The second call,
  given the flag as the first left it, adds its ramp and nothing else, and leaves the
  flag true.
\<close>

theorem glide_continuation:
  assumes "scheduleParameterChange rnd p v1 t1 d1 True (Some False) = (p1, g1)"
      and "scheduleParameterChange rnd p1 v2 t2 d2 True g1 = (p2, g2)"
  shows "calls p1 = calls p @ [CancelScheduledValues t1, SetValueAtTime (pvalue p) t1,
                               LinearRampToValueAtTime v1 (rnd (t1 + d1))]
       \<and> g1 = Some True
       \<and> calls p2 = calls p1 @ [LinearRampToValueAtTime v2 (rnd (t2 + d2))]
       \<and> g2 = Some True"
  using assms by (auto simp: sched_defs Let_def)

theorem glide_continuation_witness:
  "scheduleParameterChange fl64 (control 1) (1/2) 0 1 True (Some False)
     = (\<lparr>pvalue = 1, calls = [CancelScheduledValues 0, SetValueAtTime 1 0,
                               LinearRampToValueAtTime (1/2) 1]\<rparr>, Some True)
   \<and> scheduleParameterChange fl64
        \<lparr>pvalue = 1, calls = [CancelScheduledValues 0, SetValueAtTime 1 0,
                               LinearRampToValueAtTime (1/2) 1]\<rparr> (1/4) 1 1 True (Some True)
     = (\<lparr>pvalue = 1, calls = [CancelScheduledValues 0, SetValueAtTime 1 0,
                               LinearRampToValueAtTime (1/2) 1,
                               LinearRampToValueAtTime (1/4) 2]\<rparr>, Some True)"
proof -
  let ?p1 = "\<lparr>pvalue = 1, calls = [CancelScheduledValues 0, SetValueAtTime 1 0,
                               LinearRampToValueAtTime (1/2) 1]\<rparr>"
  let ?p2 = "\<lparr>pvalue = 1, calls = [CancelScheduledValues 0, SetValueAtTime 1 0,
                               LinearRampToValueAtTime (1/2) 1,
                               LinearRampToValueAtTime (1/4) 2]\<rparr>"
  have h1: "scheduleParameterChange fl64 (control 1) (1/2) 0 1 True (Some False)
              = (?p1, Some True)"
    by (simp add: sched_defs control_def fl64_1)
  have h2: "scheduleParameterChange fl64 ?p1 (1/4) 1 1 True (Some True) = (?p2, Some True)"
    by (simp add: sched_defs fl64_2)
  from glide_continuation [OF h1 h2] h1 h2 show ?thesis by simp
qed

text \<open>
  Against C3 as it is worded: a call with doGlide true and no continuation object, on a
  control that has a ramp pending. The pending ramp is not cancelled and the control is
  not set to its current value: the only call made is the new ramp.
\<close>

theorem no_continuation_counterexample:
  "calls (fst (scheduleParameterChange fl64
      \<lparr>pvalue = 1/4, calls = [LinearRampToValueAtTime 1 3]\<rparr> (1/2) 5 2 True None))
     = [LinearRampToValueAtTime 1 3, LinearRampToValueAtTime (1/2) 7]
   \<and> CancelScheduledValues 5 \<notin> set (calls (fst (scheduleParameterChange fl64
      \<lparr>pvalue = 1/4, calls = [LinearRampToValueAtTime 1 3]\<rparr> (1/2) 5 2 True None)))
   \<and> SetValueAtTime (1/4) 5 \<notin> set (calls (fst (scheduleParameterChange fl64
      \<lparr>pvalue = 1/4, calls = [LinearRampToValueAtTime 1 3]\<rparr> (1/2) 5 2 True None)))"
  by (simp add: sched_defs fl64_7)

text \<open>
  C3, amended. A call without a continuation object starts afresh only when doGlide is
  false: it then cancels the scheduled changes from startTime on and sets the value at
  startTime to targetValue. When doGlide is true it makes neither of these calls: it
  only programs the ramp to targetValue, after whatever was scheduled before.
\<close>

theorem no_continuation_schedule:
  "scheduleParameterChange rnd p v t d doGlide None =
     (p\<lparr>calls := calls p @ (if doGlide then [LinearRampToValueAtTime v (rnd (t + d))]
                             else [CancelScheduledValues t, SetValueAtTime v t])\<rparr>, None)"
  by (rule schedule_no_data)

theorem no_continuation_schedule_witness:
  "scheduleParameterChange fl64 \<lparr>pvalue = 1/4, calls = [LinearRampToValueAtTime 1 3]\<rparr>
       (1/2) 5 2 True None
     = (\<lparr>pvalue = 1/4, calls = [LinearRampToValueAtTime 1 3,
                                 LinearRampToValueAtTime (1/2) 7]\<rparr>, None)
   \<and> scheduleParameterChange fl64 \<lparr>pvalue = 1/4, calls = [LinearRampToValueAtTime 1 3]\<rparr>
       (1/2) 5 2 False None
     = (\<lparr>pvalue = 1/4, calls = [LinearRampToValueAtTime 1 3, CancelScheduledValues 5,
                                 SetValueAtTime (1/2) 5]\<rparr>, None)"
  using no_continuation_schedule
      [of fl64 "\<lparr>pvalue = 1/4, calls = [LinearRampToValueAtTime 1 3]\<rparr>" "1/2" 5 2 True]
    no_continuation_schedule
      [of fl64 "\<lparr>pvalue = 1/4, calls = [LinearRampToValueAtTime 1 3]\<rparr>" "1/2" 5 2 False]
  by (simp add: fl64_7)

section \<open>Pitch\<close>




section \<open>External events\<close>

text \<open>
  Against C5 as it is worded: \<open>value = 50\<close>. In binary64 \<open>255 / 100\<close> is a little less
  than 2.55, so \<open>50 * RESOLUTION\<close> is 127.49999999999998... and rounds to 127: the text
  is \<open>7f\<close> and the callback receives 127, not 128.
\<close>

theorem external_event_counterexample:
  "toHex fl64 50 = ''7f''
   \<and> map (fire fl64) (timers (applyModuleParamChange fl64 sampleConfig sampleRangeToIndex
        (sampleEvent EXTERNAL_EVENT 50 False) 2 7 (Some 3) sampleState)) = [(3, Some 127)]"
proof -
  have h: "toHex fl64 50 = ''7f''" by code_simp
  have "parseInt16 ''0x7f'' = Some 127" by code_simp
  with h show ?thesis
    by (simp add: applyModuleParamChange_def applyExternalEvent_def createTimer_def
        fire_def sample_defs)
qed

text \<open>
  C5, amended. With a callback registered, an external event whose value is between 0
  and 100 adds one timer at startTime. When it fires, the callback receives the integer
  \<open>round(value * RESOLUTION)\<close>, product and \<open>RESOLUTION = 255 / 100\<close> both in binary64;
  that integer is what reading back the text of \<open>toHex\<close> gives, and the text has
  exactly two digits. In particular value 50 gives 127, value 100 gives 255 and
  value 0 gives 0.
\<close>

theorem external_event_value:
  assumes tag: "mp_module ev = EXTERNAL_EVENT"
      and lo: "0 \<le> mp_value ev" and hi: "mp_value ev \<le> 100"
  shows "applyModuleParamChange fl64 cfg r2i ev t out (Some cb) st
           = st\<lparr>timers := timers st @ [Timer t cb ev]\<rparr>
       \<and> fire fl64 (Timer t cb ev)
           = (cb, Some (Math_round (fl64 (mp_value ev * RESOLUTION fl64))))
       \<and> length (toHex fl64 (mp_value ev)) = 2
       \<and> (mp_value ev = 50 \<longrightarrow> fire fl64 (Timer t cb ev) = (cb, Some 127))
       \<and> (mp_value ev = 100 \<longrightarrow> fire fl64 (Timer t cb ev) = (cb, Some 255))
       \<and> (mp_value ev = 0 \<longrightarrow> fire fl64 (Timer t cb ev) = (cb, Some 0))"
proof -
  note rg = toHex_range [OF lo hi]
  have a: "applyModuleParamChange fl64 cfg r2i ev t out (Some cb) st
           = st\<lparr>timers := timers st @ [Timer t cb ev]\<rparr>"
    using tag by (simp add: applyModuleParamChange_def applyExternalEvent_def createTimer_def)
  have b: "fire fl64 (Timer t cb ev)
           = (cb, Some (Math_round (fl64 (mp_value ev * RESOLUTION fl64))))"
    by (rule fire_nonneg [where rnd = fl64, OF rg(1)])
  have c: "length (toHex fl64 (mp_value ev)) = 2"
    by (rule toHex_length [where rnd = fl64, OF rg])
  have d: "mp_value ev = 50 \<longrightarrow> fire fl64 (Timer t cb ev) = (cb, Some 127)"
    using b round_50 by simp
  have e: "mp_value ev = 100 \<longrightarrow> fire fl64 (Timer t cb ev) = (cb, Some 255)"
    using b round_100 by simp
  have f: "mp_value ev = 0 \<longrightarrow> fire fl64 (Timer t cb ev) = (cb, Some 0)"
    using b round_0 by simp
  from a b c d e f show ?thesis by simp
qed

theorem external_event_value_witness:
  "mp_module (sampleEvent EXTERNAL_EVENT 90 False) = EXTERNAL_EVENT
   \<and> 0 \<le> mp_value (sampleEvent EXTERNAL_EVENT 90 False)
   \<and> mp_value (sampleEvent EXTERNAL_EVENT 90 False) \<le> 100
   \<and> timers (applyModuleParamChange fl64 sampleConfig sampleRangeToIndex
        (sampleEvent EXTERNAL_EVENT 90 False) 2 7 (Some 3) sampleState)
      = [Timer 2 3 (sampleEvent EXTERNAL_EVENT 90 False)]
   \<and> fire fl64 (Timer 2 3 (sampleEvent EXTERNAL_EVENT 90 False)) = (3, Some 229)"
proof -
  have tag: "mp_module (sampleEvent EXTERNAL_EVENT 90 False) = EXTERNAL_EVENT"
    and lo: "0 \<le> mp_value (sampleEvent EXTERNAL_EVENT 90 False)"
    and hi: "mp_value (sampleEvent EXTERNAL_EVENT 90 False) \<le> 100"
    by (simp_all add: sampleEvent_def)
  have v: "mp_value (sampleEvent EXTERNAL_EVENT 90 False) = 90" by (simp add: sampleEvent_def)
  from external_event_value [OF tag lo hi, where cfg = sampleConfig
      and ?r2i = sampleRangeToIndex and t = 2 and out = 7 and cb = 3 and st = sampleState]
  show ?thesis
    using tag lo hi by (simp add: v round_90 sampleState_def)
qed

section \<open>Filter\<close>




section \<open>Delay\<close>

text \<open>
  C7. A delay-time, delay-feedback, delay-cutoff or delay-offset event changes one
  property of the delay node and nothing else in the state, so no control receives a
  call and no timer or routing call is made: \<open>delay\<close> becomes \<open>value/100\<close>,
  \<open>feedback\<close> becomes \<open>value/100\<close>, \<open>cutoff\<close> becomes \<open>value/100\<close> times the
  configured maximum delay cutoff, \<open>offset\<close> becomes the configured minimum delay
  offset plus \<open>value/100\<close>. The resulting state is the same whatever the event's glide
  flag and duration are, and whatever the start time is.
\<close>

theorem delay_written_directly:
  assumes tag: "mp_module ev \<in> {DELAY_TIME, DELAY_FEEDBACK, DELAY_CUTOFF, DELAY_OFFSET}"
  shows "applyModuleParamChange rnd cfg r2i ev t out cb st
           = st\<lparr>modules := (modules st)\<lparr>delayModule := (delayModule (modules st))\<lparr>delayNode :=
               (if mp_module ev = DELAY_TIME
                  then (delayNode (delayModule (modules st)))
                         \<lparr>delay := rnd (mp_value ev / 100)\<rparr>
                else if mp_module ev = DELAY_FEEDBACK
                  then (delayNode (delayModule (modules st)))
                         \<lparr>feedback := rnd (mp_value ev / 100)\<rparr>
                else if mp_module ev = DELAY_CUTOFF
                  then (delayNode (delayModule (modules st)))
                         \<lparr>cutoff := rnd (rnd (mp_value ev / 100) * MAX_DELAY_CUTOFF cfg)\<rparr>
                else (delayNode (delayModule (modules st)))
                         \<lparr>offset := rnd (MIN_DELAY_OFFSET cfg + rnd (mp_value ev / 100))\<rparr>)\<rparr>\<rparr>\<rparr>
       \<and> applyModuleParamChange rnd cfg r2i (ev\<lparr>mp_glide := g, seq_mpLength := d\<rparr>) t' out cb st
           = applyModuleParamChange rnd cfg r2i ev t out cb st"
  using tag by (auto simp: applyModuleParamChange_def applyDelay_def Let_def)

theorem delay_written_directly_witness:
  "DELAY_OFFSET \<in> {DELAY_TIME, DELAY_FEEDBACK, DELAY_CUTOFF, DELAY_OFFSET}
   \<and> applyModuleParamChange fl64 sampleConfig sampleRangeToIndex
        (sampleEvent DELAY_OFFSET 100 True) 2 7 None sampleState
      = sampleState\<lparr>modules := (sampleModules 880)\<lparr>delayModule :=
          \<lparr>delayEnabled = False,
           delayNode = \<lparr>delay = 0, feedback = 0, cutoff = 0, offset = 1/2\<rparr>\<rparr>\<rparr>\<rparr>
   \<and> applyModuleParamChange fl64 sampleConfig sampleRangeToIndex
        (sampleEvent DELAY_OFFSET 100 False) 9 7 None sampleState
      = applyModuleParamChange fl64 sampleConfig sampleRangeToIndex
        (sampleEvent DELAY_OFFSET 100 True) 2 7 None sampleState"
proof -
  have tag: "mp_module (sampleEvent DELAY_OFFSET 100 True)
               \<in> {DELAY_TIME, DELAY_FEEDBACK, DELAY_CUTOFF, DELAY_OFFSET}"
    by (simp add: sampleEvent_def)
  from delay_written_directly [OF tag, where rnd = fl64 and cfg = sampleConfig
      and ?r2i = sampleRangeToIndex and t = 2 and out = 7 and cb = None and st = sampleState
      and g = False and d = "1/4" and ?t' = 9]
  show ?thesis
    by (simp add: sample_defs fl64_half fl64_1)
qed

section \<open>Panning\<close>

text \<open>
  C8. A pan-left or pan-right event changes nothing but the calls on the pan control,
  to which it adds one scheduling without continuation object, hence one new target:
  \<open>-(value/100)\<close> for pan-left, \<open>value/100\<close> for pan-right. In binary64, value 100
  gives the target -1 for pan-left and 1 for pan-right, and value 0 gives 0 on
  either side.
\<close>

theorem panning_target:
  assumes tag: "mp_module ev = PAN_LEFT \<or> mp_module ev = PAN_RIGHT"
  shows "applyModuleParamChange rnd cfg r2i ev t out cb st
           = st\<lparr>modules := (modules st)\<lparr>panner_pan := (panner_pan (modules st))\<lparr>calls :=
               calls (panner_pan (modules st))
               @ (if mp_glide ev
                  then [LinearRampToValueAtTime
                          (if mp_module ev = PAN_LEFT then - rnd (mp_value ev / 100)
                           else rnd (mp_value ev / 100))
                          (rnd (t + seq_mpLength ev))]
                  else [CancelScheduledValues t,
                        SetValueAtTime
                          (if mp_module ev = PAN_LEFT then - rnd (mp_value ev / 100)
                           else rnd (mp_value ev / 100)) t])\<rparr>\<rparr>\<rparr>
       \<and> (mp_value ev = 100 \<longrightarrow>
            targets (panner_pan (modules (applyModuleParamChange fl64 cfg r2i ev t out cb st)))
              = targets (panner_pan (modules st)) @ [if mp_module ev = PAN_LEFT then - 1 else 1])
       \<and> (mp_value ev = 0 \<longrightarrow>
            targets (panner_pan (modules (applyModuleParamChange fl64 cfg r2i ev t out cb st)))
              = targets (panner_pan (modules st)) @ [0])"
  using tag
  by (auto simp: applyModuleParamChange_def applyPanning_def schedule_no_data Let_def
      targets_def fl64_0 fl64_1)

theorem panning_target_witness:
  "(mp_module (sampleEvent PAN_LEFT 100 False) = PAN_LEFT
      \<or> mp_module (sampleEvent PAN_LEFT 100 False) = PAN_RIGHT)
   \<and> panner_pan (modules (applyModuleParamChange fl64 sampleConfig sampleRangeToIndex
        (sampleEvent PAN_LEFT 100 False) 2 7 None sampleState))
      = \<lparr>pvalue = 0, calls = [CancelScheduledValues 2, SetValueAtTime (- 1) 2]\<rparr>"
proof -
  have tag: "mp_module (sampleEvent PAN_LEFT 100 False) = PAN_LEFT
      \<or> mp_module (sampleEvent PAN_LEFT 100 False) = PAN_RIGHT"
    by (simp add: sampleEvent_def)
  from panning_target [OF tag, where rnd = fl64 and cfg = sampleConfig
      and ?r2i = sampleRangeToIndex and t = 2 and out = 7 and cb = None and st = sampleState]
  show ?thesis
    by (simp add: sample_defs fl64_1)
qed

section \<open>The dispatcher's silent cases and toggles\<close>

text \<open>
  C9. No path of the dispatcher has an error result, and the three gaps are silent. An
  event whose tag is none of the known ones leaves the whole state as it was. The
  pitch applier returns as many voices as it was given, in the same order; a voice
  whose generator is neither an oscillator nor a sample player is returned as it was,
  while every oscillator voice and every sample-playback voice of the same list, before
  or after it, has its rate control scheduled to its target. An external event with
  no callback registered leaves the whole state as it was.
\<close>

theorem contract_gaps_are_silent:
  "(mp_module ev = OTHER s \<longrightarrow>
      applyModuleParamChange rnd cfg r2i ev t out cb st = st)
   \<and> length (applyPitchShift rnd ev voices t) = length voices
   \<and> (\<forall>i<length voices.
        case generator (voices ! i) of
          OtherNode \<Rightarrow> applyPitchShift rnd ev voices t ! i = voices ! i
        | OscillatorNode fp \<Rightarrow>
            generator (applyPitchShift rnd ev voices t ! i)
              = OscillatorNode (fst (scheduleParameterChange rnd fp
                  (if mp_module ev = PITCH_UP
                   then rnd (rnd (rnd (frequency (voices ! i) + rnd (frequency (voices ! i) / 1200))
                                  * rnd (mp_value ev / 100)) + frequency (voices ! i))
                   else rnd (frequency (voices ! i)
                             - rnd (rnd (rnd (frequency (voices ! i)
                                              + rnd (frequency (voices ! i) / 1200))
                                         * rnd (mp_value ev / 100)) / 2)))
                  t (seq_mpLength ev) (mp_glide ev) (Some (gliding (voices ! i)))))
        | AudioBufferSourceNode rp \<Rightarrow>
            generator (applyPitchShift rnd ev voices t ! i)
              = AudioBufferSourceNode (fst (scheduleParameterChange rnd rp
                  (if mp_module ev = PITCH_UP then rnd (pvalue rp + rnd (mp_value ev / 100))
                   else rnd (pvalue rp - rnd (mp_value ev / 100)))
                  t (seq_mpLength ev) (mp_glide ev) (Some (gliding (voices ! i))))))
   \<and> (mp_module ev = EXTERNAL_EVENT \<longrightarrow>
        applyModuleParamChange rnd cfg r2i ev t out None st = st)"
proof -
  have a: "mp_module ev = OTHER s \<longrightarrow>
      applyModuleParamChange rnd cfg r2i ev t out cb st = st"
    by (simp add: applyModuleParamChange_def)
  have b: "length (applyPitchShift rnd ev voices t) = length voices"
    by (simp add: applyPitchShift_def processVoices_def Let_def)
  have c: "\<forall>i<length voices.
        case generator (voices ! i) of
          OtherNode \<Rightarrow> applyPitchShift rnd ev voices t ! i = voices ! i
        | OscillatorNode fp \<Rightarrow>
            generator (applyPitchShift rnd ev voices t ! i)
              = OscillatorNode (fst (scheduleParameterChange rnd fp
                  (if mp_module ev = PITCH_UP
                   then rnd (rnd (rnd (frequency (voices ! i) + rnd (frequency (voices ! i) / 1200))
                                  * rnd (mp_value ev / 100)) + frequency (voices ! i))
                   else rnd (frequency (voices ! i)
                             - rnd (rnd (rnd (frequency (voices ! i)
                                              + rnd (frequency (voices ! i) / 1200))
                                         * rnd (mp_value ev / 100)) / 2)))
                  t (seq_mpLength ev) (mp_glide ev) (Some (gliding (voices ! i)))))
        | AudioBufferSourceNode rp \<Rightarrow>
            generator (applyPitchShift rnd ev voices t ! i)
              = AudioBufferSourceNode (fst (scheduleParameterChange rnd rp
                  (if mp_module ev = PITCH_UP then rnd (pvalue rp + rnd (mp_value ev / 100))
                   else rnd (pvalue rp - rnd (mp_value ev / 100)))
                  t (seq_mpLength ev) (mp_glide ev) (Some (gliding (voices ! i)))))"
    by (auto simp: applyPitchShift_def processVoices_def Let_def voiceData_def
        split: generator.split prod.split option.split)
  have d: "mp_module ev = EXTERNAL_EVENT \<longrightarrow>
        applyModuleParamChange rnd cfg r2i ev t out None st = st"
    by (simp add: applyModuleParamChange_def applyExternalEvent_def)
  from a b c d show ?thesis by blast
qed

theorem contract_gaps_are_silent_witness:
  "applyModuleParamChange fl64 sampleConfig sampleRangeToIndex
       (sampleEvent (OTHER ''arpeggio'') 50 True) 2 7 (Some 3) sampleState = sampleState
   \<and> length (applyPitchShift fl64 (sampleEvent PITCH_UP 50 False) sampleVoices 2) = 3
   \<and> generator (applyPitchShift fl64 (sampleEvent PITCH_UP 50 False) sampleVoices 2 ! 0)
       = OscillatorNode \<lparr>pvalue = 440, calls = [CancelScheduledValues 2,
           SetValueAtTime (725879251463919 / 1099511627776) 2]\<rparr>
   \<and> applyPitchShift fl64 (sampleEvent PITCH_UP 50 False) sampleVoices 2 ! 1
       = \<lparr>generator = OtherNode, frequency = 220, gain = control 1, gliding = False\<rparr>
   \<and> generator (applyPitchShift fl64 (sampleEvent PITCH_UP 50 False) sampleVoices 2 ! 2)
       = AudioBufferSourceNode \<lparr>pvalue = 1, calls = [CancelScheduledValues 2,
           SetValueAtTime (3 / 2) 2]\<rparr>
   \<and> applyModuleParamChange fl64 sampleConfig sampleRangeToIndex
       (sampleEvent EXTERNAL_EVENT 50 True) 2 7 None sampleState = sampleState"
proof -
  have a: "mp_module (sampleEvent (OTHER ''arpeggio'') 50 True) = OTHER ''arpeggio''"
    and c: "mp_module (sampleEvent EXTERNAL_EVENT 50 True) = EXTERNAL_EVENT"
    by (simp_all add: sampleEvent_def)
  have len: "length sampleVoices = 3"
    and g0: "generator (sampleVoices ! 0) = OscillatorNode (control 440)"
    and g1: "generator (sampleVoices ! 1) = OtherNode"
    and g2: "generator (sampleVoices ! 2) = AudioBufferSourceNode (control 1)"
    and v1: "sampleVoices ! 1
              = \<lparr>generator = OtherNode, frequency = 220, gain = control 1, gliding = False\<rparr>"
    by (simp_all add: sampleVoices_def)
  have i0: "0 < length sampleVoices" and i1: "1 < length sampleVoices"
    and i2: "2 < length sampleVoices"
    by (simp_all add: len)
  note other = contract_gaps_are_silent [where ev = "sampleEvent (OTHER ''arpeggio'') 50 True"
      and s = "''arpeggio''" and rnd = fl64 and cfg = sampleConfig
      and ?r2i = sampleRangeToIndex and t = 2 and out = 7 and cb = "Some 3" and st = sampleState,
      THEN conjunct1, THEN mp, OF a]
  note nocb = contract_gaps_are_silent [where ev = "sampleEvent EXTERNAL_EVENT 50 True"
      and rnd = fl64 and cfg = sampleConfig and ?r2i = sampleRangeToIndex and t = 2 and out = 7
      and st = sampleState, THEN conjunct2, THEN conjunct2, THEN conjunct2, THEN mp, OF c]
  note pitch = contract_gaps_are_silent [where ev = "sampleEvent PITCH_UP 50 False"
      and rnd = fl64 and voices = sampleVoices and t = 2, THEN conjunct2]
  note each = pitch [THEN conjunct2, THEN conjunct1, rule_format]
  have l: "length (applyPitchShift fl64 (sampleEvent PITCH_UP 50 False) sampleVoices 2) = 3"
    using pitch [THEN conjunct1] by (simp add: len)
  have r0: "generator (applyPitchShift fl64 (sampleEvent PITCH_UP 50 False) sampleVoices 2 ! 0)
       = OscillatorNode \<lparr>pvalue = 440, calls = [CancelScheduledValues 2,
           SetValueAtTime (725879251463919 / 1099511627776) 2]\<rparr>"
    unfolding each [OF i0, unfolded g0 generator.case]
    by code_simp
  have r1: "applyPitchShift fl64 (sampleEvent PITCH_UP 50 False) sampleVoices 2 ! 1
       = \<lparr>generator = OtherNode, frequency = 220, gain = control 1, gliding = False\<rparr>"
    by (rule trans [OF each [OF i1, unfolded g1 generator.case] v1])
  have r2: "generator (applyPitchShift fl64 (sampleEvent PITCH_UP 50 False) sampleVoices 2 ! 2)
       = AudioBufferSourceNode \<lparr>pvalue = 1, calls = [CancelScheduledValues 2,
           SetValueAtTime (3 / 2) 2]\<rparr>"
    unfolding each [OF i2, unfolded g2 generator.case]
    by code_simp
  from other l r0 r1 r2 nocb show ?thesis by blast
qed

text \<open>
  C10. A filter-enabled event sets the filter's enabled flag to true when the value is at
  least 50 and to false when it is below, and a delay-enabled event does the same to
  the delay's flag. Nothing else in the state changes, except that one routing call is
  recorded, and the modules it is given already carry the new flag.
\<close>

theorem toggles_at_fifty:
  "(mp_module ev = FILTER_ENABLED \<longrightarrow>
      applyModuleParamChange rnd cfg r2i ev t out cb st
        = st\<lparr>modules := (modules st)\<lparr>filterModule :=
                 (filterModule (modules st))\<lparr>filterEnabled := (50 \<le> mp_value ev)\<rparr>\<rparr>,
              routed := routed st @ [((modules st)\<lparr>filterModule :=
                 (filterModule (modules st))\<lparr>filterEnabled := (50 \<le> mp_value ev)\<rparr>\<rparr>, out)]\<rparr>)
   \<and> (mp_module ev = DELAY_ENABLED \<longrightarrow>
      applyModuleParamChange rnd cfg r2i ev t out cb st
        = st\<lparr>modules := (modules st)\<lparr>delayModule :=
                 (delayModule (modules st))\<lparr>delayEnabled := (50 \<le> mp_value ev)\<rparr>\<rparr>,
              routed := routed st @ [((modules st)\<lparr>delayModule :=
                 (delayModule (modules st))\<lparr>delayEnabled := (50 \<le> mp_value ev)\<rparr>\<rparr>, out)]\<rparr>)"
  by (simp add: applyModuleParamChange_def applyRouting_def Let_def)

theorem toggles_at_fifty_witness:
  "filterEnabled (filterModule (modules (applyModuleParamChange fl64 sampleConfig
       sampleRangeToIndex (sampleEvent FILTER_ENABLED 50 False) 2 7 None sampleState)))
   \<and> \<not> delayEnabled (delayModule (modules (applyModuleParamChange fl64 sampleConfig
       sampleRangeToIndex (sampleEvent DELAY_ENABLED 49 False) 2 7 None
       (sampleState\<lparr>modules := (sampleModules 880)\<lparr>delayModule :=
          \<lparr>delayEnabled = True,
           delayNode = \<lparr>delay = 0, feedback = 0, cutoff = 0, offset = 0\<rparr>\<rparr>\<rparr>\<rparr>))))
   \<and> map (\<lambda>(m, out). (filterEnabled (filterModule m), out))
        (routed (applyModuleParamChange fl64 sampleConfig
           sampleRangeToIndex (sampleEvent FILTER_ENABLED 50 False) 2 7 None sampleState))
      = [(True, 7)]"
proof -
  have a: "mp_module (sampleEvent FILTER_ENABLED 50 False) = FILTER_ENABLED"
    and b: "mp_module (sampleEvent DELAY_ENABLED 49 False) = DELAY_ENABLED"
    by (simp_all add: sampleEvent_def)
  from toggles_at_fifty [where ev = "sampleEvent FILTER_ENABLED 50 False" and rnd = fl64
      and cfg = sampleConfig and ?r2i = sampleRangeToIndex and t = 2 and out = 7
      and cb = None and st = sampleState, THEN conjunct1, THEN mp, OF a]
    toggles_at_fifty [where ev = "sampleEvent DELAY_ENABLED 49 False" and rnd = fl64
      and cfg = sampleConfig and ?r2i = sampleRangeToIndex and t = 2 and out = 7
      and cb = None and st = "sampleState\<lparr>modules := (sampleModules 880)\<lparr>delayModule :=
          \<lparr>delayEnabled = True,
           delayNode = \<lparr>delay = 0, feedback = 0, cutoff = 0, offset = 0\<rparr>\<rparr>\<rparr>\<rparr>",
      THEN conjunct2, THEN mp, OF b]
  show ?thesis
    by (simp add: sample_defs)
qed

end
